theory Spec2Isabelle
  imports Main "HOL-Library.Word"
begin

unbundle bit_operations_syntax

section \<open>Buffers and the DataView accessors\<close>

text \<open>
  An ArrayBuffer / Uint8Array is a list of bytes. JavaScript numbers that hold
  sequence numbers, sizes and offsets are natural numbers; \<open>setUint32\<close> stores
  its argument modulo \<open>2 ^ 32\<close>, most significant byte first (every call in
  the sources passes \<open>false\<close> or nothing for the little-endian flag).
  A read outside the buffer throws \<open>RangeError\<close>.
\<close>

type_synonym byte = "8 word"
type_synonym buffer = "byte list"

datatype error = RangeError | TypeError | OperationError

text \<open>\<open>new ArrayBuffer(n)\<close>: n zero bytes.\<close>

definition newBuffer :: "nat \<Rightarrow> buffer" where
  "newBuffer n = replicate n 0"

definition setUint8 :: "buffer \<Rightarrow> nat \<Rightarrow> nat \<Rightarrow> buffer" where
  "setUint8 buf off v = buf[off := of_nat v]"

definition setUint16 :: "buffer \<Rightarrow> nat \<Rightarrow> nat \<Rightarrow> buffer" where
  "setUint16 buf off v =
     buf[off := of_nat (v div 2 ^ 8), off + 1 := of_nat v]"

definition setUint32 :: "buffer \<Rightarrow> nat \<Rightarrow> nat \<Rightarrow> buffer" where
  "setUint32 buf off v =
     buf[off := of_nat (v div 2 ^ 24), off + 1 := of_nat (v div 2 ^ 16),
         off + 2 := of_nat (v div 2 ^ 8), off + 3 := of_nat v]"

text \<open>\<open>new Uint8Array(buffer, off).set(src)\<close>: copy \<open>src\<close> into the buffer at \<open>off\<close>.\<close>

definition setBytes :: "buffer \<Rightarrow> nat \<Rightarrow> buffer \<Rightarrow> buffer" where
  "setBytes buf off src = take off buf @ src @ drop (off + length src) buf"

text \<open>The value a read returns when it is inside the buffer.\<close>

definition rdUint8 :: "buffer \<Rightarrow> nat \<Rightarrow> nat" where
  "rdUint8 buf off = unat (buf ! off)"

definition rdUint16 :: "buffer \<Rightarrow> nat \<Rightarrow> nat" where
  "rdUint16 buf off = unat (buf ! off) * 2 ^ 8 + unat (buf ! (off + 1))"

definition rdUint32 :: "buffer \<Rightarrow> nat \<Rightarrow> nat" where
  "rdUint32 buf off =
     unat (buf ! off) * 2 ^ 24 + unat (buf ! (off + 1)) * 2 ^ 16
       + unat (buf ! (off + 2)) * 2 ^ 8 + unat (buf ! (off + 3))"

definition getUint8 :: "buffer \<Rightarrow> nat \<Rightarrow> error + nat" where
  "getUint8 buf off =
     (if off + 1 \<le> length buf then Inr (rdUint8 buf off) else Inl RangeError)"

definition getUint16 :: "buffer \<Rightarrow> nat \<Rightarrow> error + nat" where
  "getUint16 buf off =
     (if off + 2 \<le> length buf then Inr (rdUint16 buf off) else Inl RangeError)"

definition getUint32 :: "buffer \<Rightarrow> nat \<Rightarrow> error + nat" where
  "getUint32 buf off =
     (if off + 4 \<le> length buf then Inr (rdUint32 buf off) else Inl RangeError)"

text \<open>\<open>buffer.slice(a, b)\<close> for \<open>0 \<le> a\<close>: both ends are clamped to the buffer.\<close>

definition slice :: "buffer \<Rightarrow> nat \<Rightarrow> nat \<Rightarrow> buffer" where
  "slice buf a b = take (b - a) (drop a buf)"

text \<open>Big-endian byte strings, the reference the wire format is compared with.\<close>

definition be16 :: "nat \<Rightarrow> buffer" where
  "be16 v = [of_nat (v div 2 ^ 8), of_nat v]"

definition be32 :: "nat \<Rightarrow> buffer" where
  "be32 v = [of_nat (v div 2 ^ 24), of_nat (v div 2 ^ 16), of_nat (v div 2 ^ 8), of_nat v]"

section \<open>packet.js: the framing codec\<close>

text \<open>
  The checksum loop shared by \<open>buildVideoPacket\<close>, \<open>onVideoData\<close> and
  \<open>SonicReceiver.calculateChecksum\<close>:
  \<^verbatim>\<open>let sum = 0; for (i = 0; i < Math.min(len, 100); i++) sum = (sum + data[i]) & 0xffff;\<close>
\<close>

text \<open>
  The running sum stays below \<open>2 ^ 16 + 255\<close>, where \<open>x & 0xffff\<close> is
  \<open>x mod 2 ^ 16\<close>.
\<close>

fun checksumLoop :: "nat \<Rightarrow> buffer \<Rightarrow> nat" where
  "checksumLoop acc [] = acc"
| "checksumLoop acc (b # bs) = checksumLoop ((acc + unat b) mod 2 ^ 16) bs"

definition calculateChecksum :: "buffer \<Rightarrow> nat" where
  "calculateChecksum data = checksumLoop 0 (take (min (length data) 100) data)"

datatype packet =
    ACK nat
  | DATA nat buffer buffer
  | VIDEO_DATA nat nat nat bool nat buffer
  | SACK nat "(nat \<times> nat) list"
  | FEC nat buffer
  | OTHER nat nat

definition PacketType_DATA :: nat where "PacketType_DATA = 1"
definition PacketType_ACK :: nat where "PacketType_ACK = 2"
definition PacketType_VIDEO_DATA :: nat where "PacketType_VIDEO_DATA = 10"
definition PacketType_SACK :: nat where "PacketType_SACK = 11"
definition PacketType_FEC :: nat where "PacketType_FEC = 12"

definition buildVideoPacket :: "nat \<Rightarrow> buffer \<Rightarrow> bool \<Rightarrow> nat \<Rightarrow> buffer" where
  "buildVideoPacket seq payloadBytes isLast fileOffset =
     (let buffer0 = newBuffer (16 + length payloadBytes);
          b1 = setUint8 buffer0 0 PacketType_VIDEO_DATA;
          b2 = setUint32 b1 1 seq;
          b3 = setUint32 b2 5 (length payloadBytes);
          b4 = setUint32 b3 9 fileOffset;
          b5 = setUint8 b4 13 (if isLast then 1 else 0);
          csum = calculateChecksum payloadBytes;
          b6 = setUint16 b5 14 csum
      in setBytes b6 16 payloadBytes)"

definition buildAckPacket :: "nat \<Rightarrow> buffer" where
  "buildAckPacket seq = setUint32 (setUint8 (newBuffer 5) 0 PacketType_ACK) 1 seq"

text \<open>The SACK branch of \<open>parsePacket\<close> reads \<open>count\<close> pairs of 32-bit integers.\<close>

fun readRanges :: "buffer \<Rightarrow> nat \<Rightarrow> nat \<Rightarrow> error + (nat \<times> nat) list" where
  "readRanges buf off 0 = Inr []"
| "readRanges buf off (Suc n) =
     (case getUint32 buf off of Inl e \<Rightarrow> Inl e
      | Inr start \<Rightarrow>
        (case getUint32 buf (off + 4) of Inl e \<Rightarrow> Inl e
         | Inr end \<Rightarrow>
           (case readRanges buf (off + 8) n of Inl e \<Rightarrow> Inl e
            | Inr rs \<Rightarrow> Inr ((start, end) # rs))))"

definition parsePacket :: "buffer \<Rightarrow> error + packet" where
  "parsePacket buf =
     (case getUint8 buf 0 of Inl e \<Rightarrow> Inl e
      | Inr type \<Rightarrow>
     (case getUint32 buf 1 of Inl e \<Rightarrow> Inl e
      | Inr seq \<Rightarrow>
        if type = PacketType_ACK then Inr (ACK seq)
        else if type = PacketType_DATA then
          (case getUint32 buf 5 of Inl e \<Rightarrow> Inl e
           | Inr ivLength \<Rightarrow>
          (case getUint32 buf (9 + ivLength) of Inl e \<Rightarrow> Inl e
           | Inr payloadLength \<Rightarrow>
             Inr (DATA seq (slice buf 9 (9 + ivLength))
                    (slice buf (13 + ivLength) (13 + ivLength + payloadLength)))))
        else if type = PacketType_VIDEO_DATA then
          (case getUint32 buf 5 of Inl e \<Rightarrow> Inl e
           | Inr psize \<Rightarrow>
          (case getUint32 buf 9 of Inl e \<Rightarrow> Inl e
           | Inr fileOffset \<Rightarrow>
          (case getUint8 buf 13 of Inl e \<Rightarrow> Inl e
           | Inr lastByte \<Rightarrow>
          (case getUint16 buf 14 of Inl e \<Rightarrow> Inl e
           | Inr checksum \<Rightarrow>
             Inr (VIDEO_DATA seq psize fileOffset (lastByte = 1) checksum
                    (slice buf 16 (16 + psize)))))))
        else if type = PacketType_SACK then
          (case getUint32 buf 5 of Inl e \<Rightarrow> Inl e
           | Inr count \<Rightarrow>
          (case readRanges buf 9 count of Inl e \<Rightarrow> Inl e
           | Inr ranges \<Rightarrow> Inr (SACK seq ranges)))
        else if type = PacketType_FEC then
          Inr (FEC seq (slice buf 5 (5 + (length buf - 5))))
        else Inr (OTHER type seq)))"

section \<open>JavaScript Map objects\<close>

text \<open>
  A \<open>Map\<close> keeps its entries in insertion order; \<open>set\<close> on a present key
  replaces the value in place.
\<close>

fun Map_has :: "('k \<times> 'v) list \<Rightarrow> 'k \<Rightarrow> bool" where
  "Map_has [] k = False"
| "Map_has ((k', v) # m) k = (k = k' \<or> Map_has m k)"

fun Map_get :: "('k \<times> 'v) list \<Rightarrow> 'k \<Rightarrow> 'v option" where
  "Map_get [] k = None"
| "Map_get ((k', v) # m) k = (if k = k' then Some v else Map_get m k)"

fun Map_set :: "('k \<times> 'v) list \<Rightarrow> 'k \<Rightarrow> 'v \<Rightarrow> ('k \<times> 'v) list" where
  "Map_set [] k v = [(k, v)]"
| "Map_set ((k', v') # m) k v =
     (if k = k' then (k, v) # m else (k', v') # Map_set m k v)"

fun Map_delete :: "('k \<times> 'v) list \<Rightarrow> 'k \<Rightarrow> ('k \<times> 'v) list" where
  "Map_delete [] k = []"
| "Map_delete ((k', v) # m) k = (if k = k' then m else (k', v) # Map_delete m k)"

section \<open>receiver.js: SonicReceiver\<close>

definition SACK_BATCH_SIZE :: nat where
  "SACK_BATCH_SIZE = 50"

datatype rstate = Idle | Connecting | Receiving | Assembling | Completed | Failed

text \<open>
  A chunk's data is the \<open>Uint8Array\<close> view of the payload, or what \<open>decryptChunk\<close>
  returned: again a \<open>Uint8Array\<close> in local mode, but the \<open>ArrayBuffer\<close> of
  \<open>crypto.subtle.decrypt\<close> otherwise. An \<open>ArrayBuffer\<close> has a \<open>byteLength\<close> and no
  \<open>length\<close>: there \<open>data.length\<close> is \<open>undefined\<close>.
\<close>

datatype chunk_data = TypedArray buffer | RawBuffer buffer

fun bytesOf :: "chunk_data \<Rightarrow> buffer" where
  "bytesOf (TypedArray b) = b"
| "bytesOf (RawBuffer b) = b"

fun jsLength :: "chunk_data \<Rightarrow> nat option" where
  "jsLength (TypedArray b) = Some (length b)"
| "jsLength (RawBuffer b) = None"

text \<open>
  The numbers that sum such lengths: a natural number or \<open>NaN\<close>. Adding
  \<open>undefined\<close> gives \<open>NaN\<close>, which stays; \<open>NaN >= n\<close> is false; as an array length
  or offset \<open>NaN\<close> counts as 0.
\<close>

datatype jsnum = Num nat | NaN

fun jsAdd :: "jsnum \<Rightarrow> nat option \<Rightarrow> jsnum" where
  "jsAdd (Num a) (Some b) = Num (a + b)"
| "jsAdd (Num a) None = NaN"
| "jsAdd NaN b = NaN"

fun jsGe :: "jsnum \<Rightarrow> nat \<Rightarrow> bool" where
  "jsGe (Num a) n = (a \<ge> n)"
| "jsGe NaN n = False"

fun toIndex :: "jsnum \<Rightarrow> nat" where
  "toIndex (Num a) = a"
| "toIndex NaN = 0"

text \<open>The entries of \<open>this.chunks\<close> (the \<open>receivedAt\<close> time stamp is left out).\<close>

record chunk_meta =
  cm_offset :: nat
  cm_size :: "nat option"
  cm_isLast :: bool

text \<open>
  A record of the IndexedDB store \<open>chunks\<close>. Its key \<open>id\<close> is the string
  \<open>transferId_seq\<close>; the model keys the store by the pair. \<open>savedAt\<close> is left out.
\<close>

record db_chunk =
  c_transferId :: "string option"
  c_seq :: nat
  c_data :: chunk_data
  c_offset :: nat
  c_size :: "nat option"
  c_isLast :: bool

type_synonym store = "((string option \<times> nat) \<times> db_chunk) list"

record file_meta =
  fileName :: string
  fileSize :: nat
  mimeType :: string
  totalChunks :: nat
  chunkSize :: nat
  encrypted :: bool

datatype control_msg =
    READY
  | KEY string
  | START_TRANSFER
  | RESUME_FROM nat "nat list"
  | CHUNK_BATCH_ACK "nat list" jsnum
  | RETRANSMIT_REQUEST "nat list"
  | ERROR string

datatype channel_id = ControlChannel | MainDataChannel

text \<open>
  The fields of a \<open>SonicReceiver\<close>, and what it has done to the outside:
  \<^item> \<open>putQueue\<close>: the \<open>store.put\<close> requests issued and not yet completed;
  \<^item> \<open>controlOpen\<close>, \<open>dcOpen\<close>: whether \<open>this.controlChannel\<close> and \<open>this.dc\<close>
    exist with \<open>readyState === "open"\<close>;
  \<^item> \<open>sent\<close>: the control messages handed to a channel, in order;
  \<^item> \<open>ackTimer\<close>: the delay of the armed \<open>setTimeout\<close>, if one is armed;
  \<^item> \<open>assembleTimers\<close>: how many \<open>setTimeout(() => this.assembleFile(), 100)\<close> are pending;
  \<^item> \<open>downloads\<close>: the files handed to \<open>downloadFile\<close>.
\<close>

record receiver =
  code :: string
  metadata :: "file_meta option"
  chunks :: "(nat \<times> chunk_meta) list"
  receivedBytes :: jsnum
  state :: rstate
  db :: "store option"
  putQueue :: "db_chunk list"
  transferId :: "string option"
  cryptoKey :: bool
  pendingAcks :: "nat list"
  ackTimer :: "nat option"
  controlOpen :: bool
  dcOpen :: bool
  sent :: "(channel_id \<times> control_msg) list"
  assembleTimers :: nat
  downloads :: "(string \<times> buffer) list"

text \<open>The constructor.\<close>

definition SonicReceiver :: "string \<Rightarrow> receiver" where
  "SonicReceiver sessionCode =
     \<lparr>code = sessionCode, metadata = None, chunks = [], receivedBytes = Num 0, state = Idle,
      db = None, putQueue = [], transferId = None, cryptoKey = False, pendingAcks = [],
      ackTimer = None, controlOpen = False, dcOpen = False, sent = [],
      assembleTimers = 0, downloads = []\<rparr>"

definition sendControl :: "control_msg \<Rightarrow> receiver \<Rightarrow> receiver" where
  "sendControl msg r =
     (if controlOpen r then r\<lparr>sent := sent r @ [(ControlChannel, msg)]\<rparr>
      else if dcOpen r then r\<lparr>sent := sent r @ [(MainDataChannel, msg)]\<rparr>
      else r)"

text \<open>\<open>requestRetransmit\<close> wraps a single number into a list; the callers here pass the list.\<close>

definition requestRetransmit :: "nat list \<Rightarrow> receiver \<Rightarrow> receiver" where
  "requestRetransmit seqs r = sendControl (RETRANSMIT_REQUEST seqs) r"

definition handleError :: "string \<Rightarrow> receiver \<Rightarrow> receiver" where
  "handleError message r = sendControl (ERROR message) (r\<lparr>state := Failed\<rparr>)"

definition sendBatchAck :: "receiver \<Rightarrow> receiver" where
  "sendBatchAck r =
     (if length (pendingAcks r) = 0 then r
      else
        let r1 = sendControl (CHUNK_BATCH_ACK (pendingAcks r) (receivedBytes r)) r;
            r2 = r1\<lparr>pendingAcks := []\<rparr>
        in if ackTimer r2 \<noteq> None then r2\<lparr>ackTimer := None\<rparr> else r2)"

text \<open>
  \<open>saveChunk\<close> is an async function that the caller does not await: the call runs
  up to \<open>store.put\<close>, which issues the request, and returns. The request completes
  in a later turn of the event loop (\<open>putCompleted\<close>), or fails there, which \<open>saveChunk\<close> only logs.
\<close>

definition saveChunk :: "nat \<Rightarrow> chunk_data \<Rightarrow> nat \<Rightarrow> bool \<Rightarrow> receiver \<Rightarrow> receiver" where
  "saveChunk seq data offset isLast r =
     (case db r of
        None \<Rightarrow> r
      | Some _ \<Rightarrow>
          r\<lparr>putQueue := putQueue r @
               [\<lparr>c_transferId = transferId r, c_seq = seq, c_data = data,
                 c_offset = offset, c_size = jsLength data, c_isLast = isLast\<rparr>]\<rparr>)"

definition putCompleted :: "bool \<Rightarrow> receiver \<Rightarrow> receiver" where
  "putCompleted ok r =
     (case putQueue r of
        [] \<Rightarrow> r
      | c # q \<Rightarrow>
          if ok
          then r\<lparr>putQueue := q,
                 db := map_option (\<lambda>st. Map_set st (c_transferId c, c_seq c) c) (db r)\<rparr>
          else r\<lparr>putQueue := q\<rparr>)"

record header =
  h_seq :: nat
  h_size :: nat
  h_offset :: nat
  h_flags :: nat
  h_reserved :: nat
  h_checksum :: nat

definition parseHeader :: "buffer \<Rightarrow> error + header" where
  "parseHeader buf =
     (case getUint32 buf 0 of Inl e \<Rightarrow> Inl e | Inr seq \<Rightarrow>
     (case getUint32 buf 4 of Inl e \<Rightarrow> Inl e | Inr sz \<Rightarrow>
     (case getUint32 buf 8 of Inl e \<Rightarrow> Inl e | Inr off \<Rightarrow>
     (case getUint8 buf 12 of Inl e \<Rightarrow> Inl e | Inr flags \<Rightarrow>
     (case getUint8 buf 13 of Inl e \<Rightarrow> Inl e | Inr reserved \<Rightarrow>
     (case getUint16 buf 14 of Inl e \<Rightarrow> Inl e | Inr checksum \<Rightarrow>
        Inr \<lparr>h_seq = seq, h_size = sz, h_offset = off, h_flags = flags,
             h_reserved = reserved, h_checksum = checksum\<rparr>))))))"

definition isLastFlag :: "header \<Rightarrow> bool" where
  "isLastFlag h = (h_flags h AND 1 \<noteq> 0)"

definition isEncryptedFlag :: "header \<Rightarrow> bool" where
  "isEncryptedFlag h = (h_flags h AND 2 \<noteq> 0)"

text \<open>
  \<open>handleBinaryChunk\<close>, first half (down to the decryption): what becomes of the
  frame. \<open>dec seq payload\<close> stands for \<open>this.decryptChunk(payload, seq)\<close>, AES-GCM under
  the derived key with the nonce rebuilt from \<open>seq\<close> (or the data as it is, in
  local mode); \<open>None\<close> when it throws. The
  function awaits the decryption; the model takes the call in one step. (No code
  of receiver.js assigns \<open>this.cryptoKey\<close>, so the branch that awaits is taken only
  if something outside sets the field.)
\<close>

datatype verdict = TooSmall | Thrown error | Retransmit nat | Accept header chunk_data

definition checkFrame :: "(nat \<Rightarrow> buffer \<Rightarrow> chunk_data option) \<Rightarrow> receiver \<Rightarrow> buffer \<Rightarrow> verdict" where
  "checkFrame dec r arrayBuffer =
     (if length arrayBuffer < 16 then TooSmall
      else
        case parseHeader arrayBuffer of
          Inl e \<Rightarrow> Thrown e
        | Inr h \<Rightarrow>
            let expectedSize = 16 + h_size h in
            if length arrayBuffer \<noteq> expectedSize then Retransmit (h_seq h)
            else
              let payload = take (h_size h) (drop 16 arrayBuffer);
                  calculatedChecksum = calculateChecksum payload
              in if calculatedChecksum \<noteq> h_checksum h then Retransmit (h_seq h)
                 else if isEncryptedFlag h \<and> cryptoKey r
                 then (case dec (h_seq h) payload of
                         None \<Rightarrow> Retransmit (h_seq h)
                       | Some data \<Rightarrow> Accept h data)
                 else Accept h (TypedArray payload))"

text \<open>
  Second half: record the chunk, add \<open>data.length\<close> to \<open>receivedBytes\<close>, start the
  save, queue the acknowledgement, check for completion. With \<open>this.metadata\<close> still null the
  completion test throws unless \<open>isLast\<close> short-circuits it; the surrounding
  \<open>catch\<close> logs that, and what was done before stays done.
\<close>

definition storeChunk :: "header \<Rightarrow> chunk_data \<Rightarrow> receiver \<Rightarrow> receiver" where
  "storeChunk h data r =
     (let isLast = isLastFlag h;
          r1 = r\<lparr>chunks := Map_set (chunks r) (h_seq h)
                      \<lparr>cm_offset = h_offset h, cm_size = jsLength data, cm_isLast = isLast\<rparr>\<rparr>;
          r2 = r1\<lparr>receivedBytes := jsAdd (receivedBytes r1) (jsLength data)\<rparr>;
          r3 = saveChunk (h_seq h) data (h_offset h) isLast r2;
          r4 = r3\<lparr>pendingAcks := pendingAcks r3 @ [h_seq h]\<rparr>;
          r5 = (if length (pendingAcks r4) \<ge> SACK_BATCH_SIZE then sendBatchAck r4
                else if ackTimer r4 = None then r4\<lparr>ackTimer := Some 100\<rparr>
                else r4)
      in if isLast then r5\<lparr>assembleTimers := assembleTimers r5 + 1\<rparr>
         else
           case metadata r5 of
             None \<Rightarrow> r5
           | Some m \<Rightarrow>
               if jsGe (receivedBytes r5) (fileSize m)
               then r5\<lparr>assembleTimers := assembleTimers r5 + 1\<rparr>
               else r5)"

definition handleBinaryChunk :: "(nat \<Rightarrow> buffer \<Rightarrow> chunk_data option) \<Rightarrow> receiver \<Rightarrow> buffer \<Rightarrow> receiver" where
  "handleBinaryChunk dec r arrayBuffer =
     (case checkFrame dec r arrayBuffer of
        TooSmall \<Rightarrow> r
      | Thrown e \<Rightarrow> r
      | Retransmit seq \<Rightarrow> requestRetransmit [seq] r
      | Accept h data \<Rightarrow> storeChunk h data r)"

text \<open>The gap check of \<open>assembleFile\<close> over the sorted sequence numbers.\<close>

fun findMissing :: "nat \<Rightarrow> nat list \<Rightarrow> nat list" where
  "findMissing expectedSeq [] = []"
| "findMissing expectedSeq (seq # rest) =
     [expectedSeq ..< seq] @ findMissing (max expectedSeq seq + 1) rest"

text \<open>
  \<open>getAllChunksFromDB\<close>: the records of this transfer. \<open>readOk\<close> is whether the
  IndexedDB request succeeds; when it does not, the promise rejects.
\<close>

definition getAllChunksFromDB :: "bool \<Rightarrow> receiver \<Rightarrow> error + db_chunk list" where
  "getAllChunksFromDB readOk r =
     (case db r of
        None \<Rightarrow> Inr []
      | Some st \<Rightarrow>
          if transferId r = None then Inr []
          else if readOk
          then Inr (map snd (filter (\<lambda>(k, c). c_transferId c = transferId r) st))
          else Inl OperationError)"

text \<open>
  The copy loop: \<open>result.set(new Uint8Array(chunk.data), offset); offset += chunk.size\<close>.
  \<open>set\<close> throws when the source does not fit behind the offset.
\<close>

fun combine :: "buffer \<Rightarrow> jsnum \<Rightarrow> db_chunk list \<Rightarrow> error + buffer" where
  "combine result offset [] = Inr result"
| "combine result offset (c # cs) =
     (if toIndex offset + length (bytesOf (c_data c)) \<le> length result
      then combine (setBytes result (toIndex offset) (bytesOf (c_data c)))
             (jsAdd offset (c_size c)) cs
      else Inl RangeError)"

text \<open>
  \<open>cleanup\<close>: delete the records of this transfer and close the connections
  (its own awaits are taken in one step).
\<close>

definition cleanup :: "receiver \<Rightarrow> receiver" where
  "cleanup r =
     (let r1 = (case db r of
                  None \<Rightarrow> r
                | Some st \<Rightarrow>
                    if transferId r = None then r
                    else r\<lparr>db := Some (filter (\<lambda>(k, c). c_transferId c \<noteq> transferId r) st)\<rparr>)
      in r1\<lparr>dcOpen := False, controlOpen := False\<rparr>)"

text \<open>
  \<open>assembleFile\<close>. The function awaits the database read and the download; the
  model takes them in one step, \<open>state\<close> being \<open>Assembling\<close> throughout.
\<close>

definition assembleFile :: "bool \<Rightarrow> receiver \<Rightarrow> receiver" where
  "assembleFile readOk r =
     (if state r = Assembling \<or> state r = Completed then r
      else
        let r1 = r\<lparr>state := Assembling\<rparr>;
            sorted = sort_key fst (chunks r1);
            missing = findMissing 0 (map fst sorted)
        in if length missing > 0
           then (requestRetransmit missing r1)\<lparr>state := Receiving\<rparr>
           else
             case getAllChunksFromDB readOk r1 of
               Inl e \<Rightarrow> handleError ''Failed to assemble file'' r1
             | Inr dbChunks \<Rightarrow>
                 let finalSorted = sort_key c_seq dbChunks;
                     totalSize = foldl (\<lambda>acc c. jsAdd acc (c_size c)) (Num 0) finalSorted
                 in (case combine (newBuffer (toIndex totalSize)) (Num 0) finalSorted of
                       Inl e \<Rightarrow> handleError ''Failed to assemble file'' r1
                     | Inr result \<Rightarrow>
                         (case metadata r1 of
                            None \<Rightarrow> handleError ''Failed to assemble file'' r1
                          | Some m \<Rightarrow>
                              cleanup (r1\<lparr>downloads := downloads r1 @ [(fileName m, result)],
                                          state := Completed\<rparr>))))"

text \<open>
  The events of the receive loop: a binary frame arrives, the acknowledgement
  timer fires, a scheduled \<open>assembleFile\<close> runs, a \<open>put\<close> request completes.
\<close>

datatype rx_event =
    Frame buffer
  | AckTimerFired
  | AssembleTimerFired bool
  | PutCompleted bool

definition rx_step :: "(nat \<Rightarrow> buffer \<Rightarrow> chunk_data option) \<Rightarrow> receiver \<Rightarrow> rx_event \<Rightarrow> receiver" where
  "rx_step dec r ev =
     (case ev of
        Frame buf \<Rightarrow> handleBinaryChunk dec r buf
      | AckTimerFired \<Rightarrow> (if ackTimer r = None then r else sendBatchAck r)
      | AssembleTimerFired readOk \<Rightarrow>
          (if assembleTimers r = 0 then r
           else assembleFile readOk (r\<lparr>assembleTimers := assembleTimers r - 1\<rparr>))
      | PutCompleted ok \<Rightarrow> putCompleted ok r)"

definition rx_run :: "(nat \<Rightarrow> buffer \<Rightarrow> chunk_data option) \<Rightarrow> receiver \<Rightarrow> rx_event list \<Rightarrow> receiver" where
  "rx_run dec r evs = foldl (rx_step dec) r evs"

text \<open>The acknowledgement messages among what was sent.\<close>

fun isBatchAck :: "channel_id \<times> control_msg \<Rightarrow> bool" where
  "isBatchAck (ch, CHUNK_BATCH_ACK seqs n) = True"
| "isBatchAck (ch, m) = False"

definition batchAcks :: "receiver \<Rightarrow> (channel_id \<times> control_msg) list" where
  "batchAcks r = filter isBatchAck (sent r)"

section \<open>config.js, state.js, crypto.js, protocol.js: the sender\<close>

definition CHUNK_SIZE :: nat where
  "CHUNK_SIZE = 256 * 1024"

definition MAX_BUFFER :: nat where
  "MAX_BUFFER = 4 * 1024 * 1024"

text \<open>
  \<open>state.sharedKey\<close> is \<open>null\<close>, the string \<open>"INSECURE"\<close>, or the derived AES-GCM key.
\<close>

datatype shared_key = INSECURE | AesGcmKey nat

datatype transfer_state = IDLE | WAITING | READY_STATE

text \<open>
  Modelled from the spec: \<open>buildSonicPacket(seq, chunk, isLast, offset, isEncrypted)\<close>
  is imported from packet.js but is not among the sources. A frame built by it is
  represented by the arguments it is built from; by the spec it is a 16-byte
  header followed by the payload.
\<close>

record sonic_packet =
  sp_seq :: nat
  sp_chunk :: buffer
  sp_isLast :: bool
  sp_offset :: nat
  sp_isEncrypted :: bool

text \<open>
  An RTCDataChannel as the sender sees it: whether it is open, its
  \<open>bufferedAmount\<close>, and the frames handed to \<open>send\<close>. A send adds the frame
  (16 bytes of header and the payload) to \<open>bufferedAmount\<close>.
\<close>

record data_channel =
  readyOpen :: bool
  bufferedAmount :: nat
  framesSent :: "sonic_packet list"

record js_file =
  f_name :: string
  f_type :: string
  f_content :: buffer

text \<open>
  The shared \<open>state\<close> object of state.js (time stamps, timers and the fields of
  the signalling and WebRTC set-up are left out).
\<close>

record sender =
  dataChannel :: "data_channel option"
  dataChannels :: "data_channel list"
  transferState :: transfer_state
  currentFile :: "js_file option"
  selectedFile :: "js_file option"
  isInitiator :: bool
  isTransferring :: bool
  isSending :: bool
  isVideoStream :: bool
  credits :: nat
  currentChunkSize :: nat
  activeChannelIndex :: nat
  nextSeq :: nat
  lastAck :: int
  inflight :: "(nat \<times> buffer) list"
  fileOffset :: nat
  chunkRetries :: "(nat \<times> nat) list"
  totalBytesTransferred :: nat
  rttSamples :: "nat list"
  prefetchQueue :: "(nat \<times> buffer) list"
  dynamicWindowSize :: nat
  sharedKey :: "shared_key option"

definition initialState :: sender where
  "initialState =
     \<lparr>dataChannel = None, dataChannels = [], transferState = IDLE, currentFile = None,
      selectedFile = None, isInitiator = False, isTransferring = False, isSending = False,
      isVideoStream = False, credits = 0, currentChunkSize = 512 * 1024,
      activeChannelIndex = 0, nextSeq = 0, lastAck = - 1, inflight = [], fileOffset = 0,
      chunkRetries = [], totalBytesTransferred = 0, rttSamples = [], prefetchQueue = [],
      dynamicWindowSize = 16, sharedKey = None\<rparr>"

definition resetTransfer :: "sender \<Rightarrow> sender" where
  "resetTransfer s =
     s\<lparr>nextSeq := 0, lastAck := - 1, inflight := [], isTransferring := True,
       isVideoStream := False, credits := 0, fileOffset := 0, chunkRetries := [],
       totalBytesTransferred := 0, rttSamples := [], prefetchQueue := [],
       dynamicWindowSize := 16, currentChunkSize := 512 * 1024, activeChannelIndex := 0\<rparr>"

text \<open>
  What the sender takes from outside: \<open>IS_SECURE\<close> (\<open>window.isSecureContext\<close>),
  AES-GCM encryption \<open>aesGcmEncrypt key iv plaintext\<close>, the twelve bytes that
  \<open>crypto.getRandomValues\<close> returns in the call made while \<open>nextSeq\<close> has the given
  value, what \<open>importPeerKey\<close> and \<open>deriveSharedKey\<close> make of a peer key,
  and whether \<open>send\<close> throws for the chunk of the given sequence number.
\<close>

record tx_env =
  IS_SECURE :: bool
  aesGcmEncrypt :: "nat \<Rightarrow> buffer \<Rightarrow> buffer \<Rightarrow> buffer"
  getRandomValues :: "nat \<Rightarrow> buffer"
  deriveKey :: "string \<Rightarrow> shared_key"
  sendThrows :: "nat \<Rightarrow> bool"

text \<open>
  crypto.js \<open>encryptChunk(buffer)\<close>: its only parameter is the plaintext; the
  nonce is drawn inside. \<open>rnd\<close> is what \<open>crypto.getRandomValues(new Uint8Array(12))\<close>
  returns in this call. With no key, \<open>crypto.subtle.encrypt\<close> rejects.
\<close>

record encrypted =
  e_iv :: "buffer option"
  e_data :: buffer

definition encryptChunk :: "tx_env \<Rightarrow> shared_key option \<Rightarrow> buffer \<Rightarrow> buffer \<Rightarrow> error + encrypted" where
  "encryptChunk E key rnd buffer =
     (if \<not> IS_SECURE E \<or> key = Some INSECURE then Inr \<lparr>e_iv = None, e_data = buffer\<rparr>
      else
        case key of
          Some (AesGcmKey k) \<Rightarrow> Inr \<lparr>e_iv = Some rnd, e_data = aesGcmEncrypt E k rnd buffer\<rparr>
        | _ \<Rightarrow> Inl TypeError)"

text \<open>
  The nonce both sides build from a sequence number:
  \<^verbatim>\<open>const customIv = new Uint8Array(12); new DataView(customIv.buffer).setUint32(8, seq, false);\<close>
\<close>

definition customIv :: "nat \<Rightarrow> buffer" where
  "customIv seq = setUint32 (newBuffer 12) 8 seq"

text \<open>
  The encryption step of \<open>trySend\<close>. The call in the source is
  \<open>encryptChunk(chunk, customIv)\<close>; \<open>encryptChunk\<close> declares one parameter, so the
  second argument is dropped by the call.
\<close>

definition encryptStep :: "tx_env \<Rightarrow> sender \<Rightarrow> buffer \<Rightarrow> error + (encrypted option)" where
  "encryptStep E s chunk =
     (if IS_SECURE E \<and> sharedKey s \<noteq> None \<and> sharedKey s \<noteq> Some INSECURE
      then
        let civ = customIv (nextSeq s) in
        (case encryptChunk E (sharedKey s) (getRandomValues E (nextSeq s)) chunk of
           Inl e \<Rightarrow> Inl e
         | Inr enc \<Rightarrow> Inr (Some enc))
      else Inr None)"

text \<open>The round-robin search of \<open>trySend\<close> for an open channel below \<open>MAX_BUFFER\<close>.\<close>

definition pickChannel :: "data_channel list \<Rightarrow> nat \<Rightarrow> nat option" where
  "pickChannel chans active =
     List.find (\<lambda>idx. readyOpen (chans ! idx) \<and> bufferedAmount (chans ! idx) < MAX_BUFFER)
       (map (\<lambda>attempts. (active + attempts) mod length chans) [0 ..< length chans])"

definition channelSend :: "sonic_packet \<Rightarrow> data_channel \<Rightarrow> data_channel" where
  "channelSend p c =
     c\<lparr>bufferedAmount := bufferedAmount c + 16 + length (sp_chunk p),
       framesSent := framesSent c @ [p]\<rparr>"

text \<open>
  The \<open>while (state.fileOffset < state.currentFile.size)\<close> loop of \<open>trySend\<close>,
  over the open channels \<open>chans\<close>. The first argument bounds the number of
  iterations taken; the loop also ends where the source suspends on
  \<open>onbufferedamountlow\<close> (no channel is free) and where \<open>send\<close> throws.
\<close>

fun sendLoop :: "tx_env \<Rightarrow> nat \<Rightarrow> sender \<Rightarrow> data_channel list \<Rightarrow> sender \<times> data_channel list" where
  "sendLoop E 0 s chans = (s, chans)"
| "sendLoop E (Suc n) s chans =
     (case currentFile s of
        None \<Rightarrow> (s, chans)
      | Some f \<Rightarrow>
          if fileOffset s < length (f_content f) then
            (case pickChannel chans (activeChannelIndex s) of
               None \<Rightarrow> (s, chans)
             | Some idx \<Rightarrow>
                 let s1 = s\<lparr>activeChannelIndex := (idx + 1) mod length chans\<rparr>;
                     offset = fileOffset s1;
                     chunk0 = slice (f_content f) offset (offset + currentChunkSize s1)
                 in (case encryptStep E s1 chunk0 of
                       Inl e \<Rightarrow> (s1, chans)
                     | Inr encd \<Rightarrow>
                         let chunk = (case encd of None \<Rightarrow> chunk0 | Some enc \<Rightarrow> e_data enc);
                             isEncrypted = (encd \<noteq> None);
                             isLast = (fileOffset s1 + length chunk \<ge> length (f_content f));
                             packet = \<lparr>sp_seq = nextSeq s1, sp_chunk = chunk, sp_isLast = isLast,
                                       sp_offset = offset, sp_isEncrypted = isEncrypted\<rparr>
                         in if sendThrows E (nextSeq s1)
                            then (s1\<lparr>isSending := False\<rparr>, chans)
                            else
                              sendLoop E n
                                (s1\<lparr>nextSeq := nextSeq s1 + 1,
                                    fileOffset := fileOffset s1 + length chunk,
                                    totalBytesTransferred := totalBytesTransferred s1 + length chunk\<rparr>)
                                (chans[idx := channelSend packet (chans ! idx)])))
          else (s\<lparr>isSending := False\<rparr>, chans))"

text \<open>
  \<open>trySend\<close>: the result is the state and the open channels as the run leaves them.
\<close>

definition trySend :: "tx_env \<Rightarrow> nat \<Rightarrow> sender \<Rightarrow> sender \<times> data_channel list" where
  "trySend E fuel s =
     (if currentFile s = None \<or> \<not> isTransferring s \<or> isSending s then (s, [])
      else
        let s1 = s\<lparr>isSending := True\<rparr>;
            chans = filter readyOpen
                      (if length (dataChannels s1) > 0 then dataChannels s1
                       else (case dataChannel s1 of None \<Rightarrow> [] | Some c \<Rightarrow> [c]))
        in if length chans = 0 \<and>
              (case dataChannel s1 of None \<Rightarrow> True | Some c \<Rightarrow> \<not> readyOpen c)
           then (s1\<lparr>isSending := False\<rparr>, [])
           else sendLoop E fuel s1 chans)"

definition startTransfer :: "sender \<Rightarrow> sender" where
  "startTransfer s =
     (if currentFile s = None \<or> transferState s \<noteq> READY_STATE then s
      else resetTransfer s)"

definition sendFile :: "js_file \<Rightarrow> sender \<Rightarrow> sender" where
  "sendFile f s =
     (let s1 = s\<lparr>currentFile := Some f\<rparr>
      in if transferState s1 = READY_STATE then startTransfer s1 else s1)"

text \<open>
  \<open>handleMessage\<close> of protocol.js, for the messages that drive the transfer
  (the branches for OFFER, ANSWER, ICE, CODE, RETRANSMIT_REQUEST and ERROR are not
  modelled, nor are the messages the sender puts on the control path). A
  \<open>receivedBytes\<close> that was \<open>NaN\<close> arrives through JSON as \<open>null\<close>, which \<open>>=\<close> compares as 0.
\<close>

definition handleMessage :: "tx_env \<Rightarrow> nat \<Rightarrow> control_msg \<Rightarrow> sender \<Rightarrow> sender \<times> data_channel list" where
  "handleMessage E fuel msg s =
     (case msg of
        READY \<Rightarrow>
          (if transferState s = READY_STATE then (s, [])
           else (s\<lparr>transferState := READY_STATE\<rparr>, []))
      | KEY payload \<Rightarrow>
          (if sharedKey s \<noteq> None then (s, [])
           else
             let s1 = s\<lparr>sharedKey :=
                         Some (if payload = ''INSECURE'' \<or> \<not> IS_SECURE E then INSECURE
                               else deriveKey E payload)\<rparr>
             in (case selectedFile s1 of
                   Some f \<Rightarrow> if isInitiator s1 then (sendFile f s1, []) else (s1, [])
                 | None \<Rightarrow> (s1, [])))
      | START_TRANSFER \<Rightarrow> trySend E fuel (s\<lparr>isTransferring := True\<rparr>)
      | RESUME_FROM byteOffset receivedChunks \<Rightarrow>
          trySend E fuel (s\<lparr>isTransferring := True, nextSeq := byteOffset div CHUNK_SIZE\<rparr>)
      | CHUNK_BATCH_ACK sequences rb \<Rightarrow>
          (case currentFile s of
             None \<Rightarrow> (s, [])
           | Some f \<Rightarrow>
               if toIndex rb \<ge> length (f_content f) then (s\<lparr>isTransferring := False\<rparr>, [])
               else (s, []))
      | _ \<Rightarrow> (s, []))"

section \<open>The reorder buffer of the earlier protocol.js (\<open>onData\<close>)\<close>

text \<open>
  The receiving side of the shared \<open>state\<close> object, with the module-level
  \<open>reorderBuffer\<close>, the IndexedDB store of db.js (keyed by sequence number), the
  \<open>expectedSeq\<close> item of localStorage, and what was sent back.
\<close>

datatype feedback = BinaryAck buffer | JsonAck nat | Credit nat

record legacy_state =
  l_transferState :: transfer_state
  l_expectedSeq :: nat
  l_reorderBuffer :: "(nat \<times> buffer) list"
  l_db :: "(nat \<times> buffer) list option"
  l_savedSeq :: "nat option"
  l_isVideoStream :: bool
  l_dcOpen :: bool
  l_dcBuffered :: nat
  l_wsOpen :: bool
  l_feedback :: "feedback list"

record data_msg =
  d_seq :: nat
  d_iv :: buffer
  d_payload :: buffer

text \<open>
  From outside: \<open>decryptChunk payload iv\<close> (\<open>None\<close> when it throws) and whether the
  IndexedDB transaction writing the chunk of a sequence number completes.
\<close>

record rx_env =
  decryptChunk :: "buffer \<Rightarrow> buffer \<Rightarrow> buffer option"
  putOk :: "nat \<Rightarrow> bool"

text \<open>
  \<open>saveChunkToDB(seq, data)\<close>: nothing without a database; otherwise the write,
  and on completion the \<open>expectedSeq\<close> of that moment goes to localStorage. A failed
  transaction rejects.
\<close>

definition saveChunkToDB :: "rx_env \<Rightarrow> nat \<Rightarrow> buffer \<Rightarrow> legacy_state \<Rightarrow> error + legacy_state" where
  "saveChunkToDB E seq dat s =
     (case l_db s of
        None \<Rightarrow> Inr s
      | Some st \<Rightarrow>
          if putOk E seq
          then Inr (s\<lparr>l_db := Some (Map_set st seq dat), l_savedSeq := Some (l_expectedSeq s)\<rparr>)
          else Inl OperationError)"

text \<open>Step 3 of the loop body: the acknowledgement, or the credit in video mode.\<close>

definition sendFeedback :: "nat \<Rightarrow> legacy_state \<Rightarrow> legacy_state" where
  "sendFeedback seq s =
     (if \<not> l_isVideoStream s then
        (if l_dcOpen s then
           (if l_dcBuffered s < MAX_BUFFER
            then s\<lparr>l_feedback := l_feedback s @ [BinaryAck (buildAckPacket seq)]\<rparr>
            else s)
         else if l_wsOpen s then s\<lparr>l_feedback := l_feedback s @ [JsonAck seq]\<rparr>
         else s)
      else if l_expectedSeq s mod 4 = 0 then
        (if l_dcOpen s \<or> l_wsOpen s then s\<lparr>l_feedback := l_feedback s @ [Credit 4]\<rparr> else s)
      else s)"

text \<open>
  Step 2: \<open>while (reorderBuffer.has(state.expectedSeq)) { ... }\<close>. The result
  carries the error when \<open>saveChunkToDB\<close> rejects and ends the loop.
\<close>

function drain :: "rx_env \<Rightarrow> legacy_state \<Rightarrow> legacy_state \<times> error option" where
  "drain E s =
     (case Map_get (l_reorderBuffer s) (l_expectedSeq s) of
        None \<Rightarrow> (s, None)
      | Some dat \<Rightarrow>
          let seq = l_expectedSeq s in
          (case saveChunkToDB E seq dat s of
             Inl e \<Rightarrow> (s, Some e)
           | Inr s1 \<Rightarrow>
               let s2 = s1\<lparr>l_reorderBuffer := Map_delete (l_reorderBuffer s1) seq\<rparr>;
                   s3 = s2\<lparr>l_expectedSeq := l_expectedSeq s2 + 1\<rparr>
               in drain E (sendFeedback seq s3)))"
  by pat_completeness auto
termination
proof (relation "measure (\<lambda>(E, s). length (l_reorderBuffer s))")
  show "wf (measure (\<lambda>(E, s). length (l_reorderBuffer s)))" by simp
next
  fix E :: rx_env and s :: legacy_state and dat seq s1 s2 s3
  assume g: "Map_get (l_reorderBuffer s) (l_expectedSeq s) = Some dat"
    and seq: "seq = l_expectedSeq s"
    and sv: "saveChunkToDB E seq dat s = Inr s1"
    and s2: "s2 = s1\<lparr>l_reorderBuffer := Map_delete (l_reorderBuffer s1) seq\<rparr>"
    and s3: "s3 = s2\<lparr>l_expectedSeq := l_expectedSeq s2 + 1\<rparr>"
  have del: "Map_get m k = Some v \<Longrightarrow> length (Map_delete m k) < length m"
    for m :: "(nat \<times> buffer) list" and k v
    by (induction m) (auto split: if_splits)
  have rb: "l_reorderBuffer s1 = l_reorderBuffer s"
    using sv by (auto simp: saveChunkToDB_def split: option.splits if_splits)
  have "l_reorderBuffer (sendFeedback seq s3) = Map_delete (l_reorderBuffer s) seq"
    by (simp add: sendFeedback_def s3 s2 rb)
  then show "((E, sendFeedback seq s3), (E, s)) \<in> measure (\<lambda>(E, s). length (l_reorderBuffer s))"
    using del [OF g] seq by simp
qed

text \<open>
  \<open>onData(p)\<close>. The function awaits the decryption and each save; the model runs a
  call to its end before the next one starts.
\<close>

definition onData :: "rx_env \<Rightarrow> legacy_state \<Rightarrow> data_msg \<Rightarrow> legacy_state \<times> error option" where
  "onData E s p =
     (if l_transferState s \<noteq> READY_STATE then (s, None)
      else if d_seq p \<ge> l_expectedSeq s \<and> \<not> Map_has (l_reorderBuffer s) (d_seq p) then
        (case decryptChunk E (d_payload p) (d_iv p) of
           None \<Rightarrow> (s, Some OperationError)
         | Some decrypted \<Rightarrow>
             drain E (s\<lparr>l_reorderBuffer := Map_set (l_reorderBuffer s) (d_seq p) decrypted\<rparr>))
      else drain E s)"

section \<open>Auxiliary notions for the statements\<close>

text \<open>
  crypto.js \<open>decryptChunk\<close> in local mode (\<open>!IS_SECURE\<close> or the key is
  \<open>"INSECURE"\<close>): the data comes back as it is.
\<close>

definition localModeDecrypt :: "nat \<Rightarrow> buffer \<Rightarrow> chunk_data option" where
  "localModeDecrypt seq payload = Some (TypedArray payload)"

text \<open>
  A receiver in the middle of a transfer of the 6-byte file \<open>a.bin\<close>: database
  open, metadata received, both channels open.
\<close>

definition exampleReceiver :: receiver where
  "exampleReceiver =
     (SonicReceiver ''ABC123'')
       \<lparr>metadata := Some \<lparr>fileName = ''a.bin'', fileSize = 6, mimeType = ''application/octet-stream'',
                           totalChunks = 2, chunkSize = 3, encrypted = False\<rparr>,
        state := Receiving, db := Some [], transferId := Some ''ABC123_a.bin_6'',
        controlOpen := True, dcOpen := True\<rparr>"

text \<open>
  Frames in the layout \<open>handleBinaryChunk\<close> reads: seq, size, offset (4 bytes each),
  flags, reserved, checksum (2 bytes), payload. \<open>frameA\<close> is chunk 0 with payload
  1, 2, 3; \<open>frameA'\<close> is chunk 0 again with payload 9, 9, 9; \<open>frameShort\<close> has four
  bytes; \<open>frameTruncated\<close> announces 5 payload bytes and carries 3; \<open>frameBadSum\<close>
  carries a checksum that is not the sum of its payload.
\<close>

definition frameA :: buffer where
  "frameA = [0, 0, 0, 0,  0, 0, 0, 3,  0, 0, 0, 0,  0, 0,  0, 6,  1, 2, 3]"

definition frameA' :: buffer where
  "frameA' = [0, 0, 0, 0,  0, 0, 0, 3,  0, 0, 0, 0,  0, 0,  0, 27,  9, 9, 9]"




text \<open>
  The acknowledgement bookkeeping is consistent when fewer than
  \<open>SACK_BATCH_SIZE\<close> sequence numbers are pending and the 100 ms timer is armed
  exactly when some are.
\<close>

definition ackInv :: "receiver \<Rightarrow> bool" where
  "ackInv r =
     (length (pendingAcks r) < SACK_BATCH_SIZE
      \<and> ackTimer r = (if pendingAcks r = [] then None else Some 100))"



text \<open>The channel \<open>sendControl\<close> uses.\<close>

definition controlPath :: "receiver \<Rightarrow> channel_id" where
  "controlPath r = (if controlOpen r then ControlChannel else MainDataChannel)"

text \<open>
  The example receiver with one acknowledgement pending (timer armed); the same
  after both channels have closed; and with forty-nine pending.
\<close>

definition exampleReceiver1 :: receiver where
  "exampleReceiver1 = exampleReceiver\<lparr>receivedBytes := Num 3, pendingAcks := [4], ackTimer := Some 100\<rparr>"


definition exampleReceiver49 :: receiver where
  "exampleReceiver49 =
     exampleReceiver\<lparr>receivedBytes := Num 147, pendingAcks := [1 ..< 50], ackTimer := Some 100\<rparr>"

text \<open>\<open>frameB\<close> is chunk 1, the last one, at offset 3 with payload 4, 5, 6.\<close>

definition frameB :: buffer where
  "frameB = [0, 0, 0, 1,  0, 0, 0, 3,  0, 0, 0, 3,  1, 0,  0, 15,  4, 5, 6]"


text \<open>What the store of db.js holds under a sequence number.\<close>

definition storeGet :: "legacy_state \<Rightarrow> nat \<Rightarrow> buffer option" where
  "storeGet s k = (case l_db s of None \<Rightarrow> None | Some st \<Rightarrow> Map_get st k)"

text \<open>
  A state of the earlier receiver in a transfer, with chunk 5 waiting in the
  reorder buffer for chunks 3 and 4, and a late copy of chunk 1.
\<close>

definition exampleLegacy :: legacy_state where
  "exampleLegacy =
     \<lparr>l_transferState = READY_STATE, l_expectedSeq = 3, l_reorderBuffer = [(5, [50])],
      l_db = Some [(0, [10]), (1, [11]), (2, [12])], l_savedSeq = Some 2,
      l_isVideoStream = False, l_dcOpen = True, l_dcBuffered = 0, l_wsOpen = True,
      l_feedback = []\<rparr>"

definition lateChunk :: data_msg where
  "lateChunk = \<lparr>d_seq = 1, d_iv = [], d_payload = [99]\<rparr>"

text \<open>An environment in which decryption returns the payload and every write completes.\<close>

definition exampleRxEnv :: rx_env where
  "exampleRxEnv = \<lparr>decryptChunk = (\<lambda>payload nonce. Some payload), putOk = (\<lambda>seq. True)\<rparr>"

text \<open>
  A sender: one open data channel, a file of three 512 KiB chunks, a secure
  context whose random source returns twelve bytes \<open>0xAB\<close>; the cipher is left open.
\<close>

definition exampleChannel :: data_channel where
  "exampleChannel = \<lparr>readyOpen = True, bufferedAmount = 0, framesSent = []\<rparr>"

definition exampleFile :: js_file where
  "exampleFile = \<lparr>f_name = ''a.bin'', f_type = ''application/octet-stream'',
                   f_content = replicate 1572864 7\<rparr>"

definition exampleTxEnv :: "(nat \<Rightarrow> buffer \<Rightarrow> buffer \<Rightarrow> buffer) \<Rightarrow> tx_env" where
  "exampleTxEnv cipher =
     \<lparr>IS_SECURE = True, aesGcmEncrypt = cipher, getRandomValues = (\<lambda>n. replicate 12 171),
      deriveKey = (\<lambda>peer. AesGcmKey 1), sendThrows = (\<lambda>n. False)\<rparr>"

text \<open>The sender after \<open>READY\<close>, before any \<open>KEY\<close> message.\<close>

definition senderReady :: "tx_env \<Rightarrow> sender" where
  "senderReady E =
     fst (handleMessage E 0 READY
            (initialState\<lparr>dataChannel := Some exampleChannel, isInitiator := True\<rparr>))"

text \<open>\<dots> after the peer's key arrived (a real key, or local mode).\<close>

definition senderKeyed :: "tx_env \<Rightarrow> string \<Rightarrow> sender" where
  "senderKeyed E peerKey = fst (handleMessage E 0 (KEY peerKey) (senderReady E))"

section \<open>The framing codec: building and parsing a VIDEO_DATA frame\<close>

lemma newBuffer16: "newBuffer (16 + n) = [0,0,0,0, 0,0,0,0, 0,0,0,0, 0,0,0,0] @ replicate n 0"
  by (simp add: newBuffer_def replicate_add numeral_eq_Suc)

lemma upd_hdr: "i < length h \<Longrightarrow> (h @ t)[i := x] = h[i := x] @ t"
  by (simp add: list_update_append)

lemma build_layout:
  "buildVideoPacket seq payload isLast foff =
     [of_nat PacketType_VIDEO_DATA] @ be32 seq @ be32 (length payload) @ be32 foff
       @ [if isLast then 1 else 0] @ be16 (calculateChecksum payload) @ payload"
  unfolding buildVideoPacket_def Let_def newBuffer16 setUint8_def setUint32_def setUint16_def
  by (simp add: upd_hdr setBytes_def be32_def be16_def del: replicate_Suc)

lemma unat_byte_of_nat: "unat (of_nat x :: byte) = x mod 256"
  by (simp add: unat_of_nat)

lemma be32_val:
  assumes "v < 2 ^ 32"
  shows "(v div 2 ^ 24 mod 256) * 2 ^ 24 + (v div 2 ^ 16 mod 256) * 2 ^ 16
          + (v div 2 ^ 8 mod 256) * 2 ^ 8 + v mod 256 = (v::nat)"
proof -
  define q1 where "q1 = v div 256"
  define q2 where "q2 = v div 65536"
  define q3 where "q3 = v div 16777216"
  define r0 where "r0 = v mod 256"
  define r1 where "r1 = q1 mod 256"
  define r2 where "r2 = q2 mod 256"
  have q2: "q2 = q1 div 256" and q3: "q3 = q2 div 256"
    by (simp_all add: q1_def q2_def q3_def div_mult2_eq [symmetric])
  have a: "v = q1 * 256 + r0" by (simp add: q1_def r0_def)
  have b: "q1 = q2 * 256 + r1" by (simp add: q2 r1_def)
  have c: "q2 = q3 * 256 + r2" by (simp add: q3 r2_def)
  have d: "q3 mod 256 = q3"
    using assms by (simp add: q3_def less_mult_imp_div_less)
  have "q3 * 16777216 + r2 * 65536 + r1 * 256 + r0 = v"
    by (simp add: a b c)
  then show ?thesis
    by (simp add: d q1_def [symmetric] q2_def [symmetric] q3_def [symmetric]
          r0_def [symmetric] r1_def [symmetric] r2_def [symmetric])
qed

lemma be16_val: "v < 2 ^ 16 \<Longrightarrow> (v div 2 ^ 8 mod 256) * 2 ^ 8 + v mod 256 = (v::nat)"
  by (simp add: less_mult_imp_div_less)

lemma getUint32_be32:
  assumes "v < 2 ^ 32" "length pre = off"
  shows "getUint32 (pre @ be32 v @ post) off = Inr v"
  using assms be32_val [OF assms(1)] 
  by (simp add: getUint32_def rdUint32_def be32_def nth_append unat_byte_of_nat)

lemma getUint16_be16:
  assumes "v < 2 ^ 16" "length pre = off"
  shows "getUint16 (pre @ be16 v @ post) off = Inr v"
  using assms be16_val [OF assms(1)] 
  by (simp add: getUint16_def rdUint16_def be16_def nth_append unat_byte_of_nat)

lemma getUint8_at:
  assumes "length pre = off"
  shows "getUint8 (pre @ [b] @ post) off = Inr (unat b)"
  using assms by (simp add: getUint8_def rdUint8_def nth_append)

lemma checksumLoop_eq: "acc < 2 ^ 16 \<Longrightarrow> checksumLoop acc bs = (acc + sum_list (map unat bs)) mod 2 ^ 16"
proof (induction bs arbitrary: acc)
  case Nil then show ?case by simp
next
  case (Cons b bs)
  have "checksumLoop acc (b # bs) = ((acc + unat b) mod 2 ^ 16 + sum_list (map unat bs)) mod 2 ^ 16"
    using Cons.IH [of "(acc + unat b) mod 2 ^ 16"] by simp
  also have "\<dots> = (acc + unat b + sum_list (map unat bs)) mod 2 ^ 16"
    by (simp add: mod_add_left_eq)
  finally show ?case by (simp add: add.assoc)
qed

lemma calculateChecksum_sum:
  "calculateChecksum data = sum_list (map unat (take (min (length data) 100) data)) mod 2 ^ 16"
  by (simp add: calculateChecksum_def checksumLoop_eq)

lemma calculateChecksum_lt: "calculateChecksum data < 2 ^ 16"
  by (simp add: calculateChecksum_sum)


lemma length_be32: "length (be32 v) = 4" by (simp add: be32_def)
lemma length_be16: "length (be16 v) = 2" by (simp add: be16_def)

lemma parse_video:
  assumes "seq < 2 ^ 32" "length payload < 2 ^ 32" "foff < 2 ^ 32"
  shows "parsePacket (buildVideoPacket seq payload isLast foff) =
     Inr (VIDEO_DATA seq (length payload) foff isLast (calculateChecksum payload) payload)"
proof -
  define f where "f = buildVideoPacket seq payload isLast foff"
  define c where "c = calculateChecksum payload"
  define l :: byte where "l = (if isLast then 1 else 0)"
  define T :: buffer where "T = [of_nat PacketType_VIDEO_DATA]"
  have lT: "length T = 1" by (simp add: T_def)
  have f: "f = T @ be32 seq @ be32 (length payload) @ be32 foff @ [l] @ be16 c @ payload"
    by (simp add: f_def build_layout T_def l_def c_def)
  have t: "getUint8 f 0 = Inr 10"
    by (simp add: f T_def getUint8_def rdUint8_def PacketType_VIDEO_DATA_def)
  have s: "getUint32 f 1 = Inr seq"
    unfolding f by (rule getUint32_be32 [OF assms(1)]) (simp add: lT)
  have "f = (T @ be32 seq) @ be32 (length payload) @ (be32 foff @ [l] @ be16 c @ payload)"
    by (simp add: f)
  then have n: "getUint32 f 5 = Inr (length payload)"
    using getUint32_be32 [OF assms(2), of "T @ be32 seq" 5] by (simp add: lT length_be32)
  have "f = (T @ be32 seq @ be32 (length payload)) @ be32 foff @ ([l] @ be16 c @ payload)"
    by (simp add: f)
  then have fo: "getUint32 f 9 = Inr foff"
    using getUint32_be32 [OF assms(3), of "T @ be32 seq @ be32 (length payload)" 9]
    by (simp add: lT length_be32)
  have "f = (T @ be32 seq @ be32 (length payload) @ be32 foff) @ [l] @ (be16 c @ payload)"
    by (simp add: f)
  then have l: "getUint8 f 13 = Inr (unat l)"
    using getUint8_at [of "T @ be32 seq @ be32 (length payload) @ be32 foff" 13]
    by (simp add: lT length_be32)
  have "f = (T @ be32 seq @ be32 (length payload) @ be32 foff @ [l]) @ be16 c @ payload"
    by (simp add: f)
  moreover have "c < 2 ^ 16" unfolding c_def by (rule calculateChecksum_lt)
  ultimately have c: "getUint16 f 14 = Inr c"
    using getUint16_be16 [of c "T @ be32 seq @ be32 (length payload) @ be32 foff @ [l]" 14]
    by (simp add: lT length_be32)
  have p: "slice f 16 (16 + length payload) = payload"
    by (simp add: f slice_def lT length_be32 length_be16)
  have u: "(unat l = Suc 0) = isLast" by (simp add: l_def)
  have "parsePacket f = Inr (VIDEO_DATA seq (length payload) foff isLast c payload)"
    unfolding parsePacket_def t s n fo l c
    by (simp add: p u PacketType_VIDEO_DATA_def PacketType_ACK_def PacketType_DATA_def)
  then show ?thesis unfolding f_def c_def .
qed


text \<open>
  C7. For every sequence number, payload, \<open>isLast\<close> flag and file offset, each within
  32-bit range (the payload by its length), parsing the frame built by
  \<open>buildVideoPacket\<close> returns a \<open>VIDEO_DATA\<close> record with the same \<open>seq\<close>, \<open>size\<close>
  equal to the payload length, the same \<open>fileOffset\<close> and \<open>isLast\<close>, the original
  payload, and a checksum equal to the 16-bit wrap-around sum of the first
  \<open>min(len, 100)\<close> payload bytes. The built frame is \<open>16 + len\<close> bytes long and its
  header holds the type tag 10 and the integers in big-endian order.
\<close>

theorem buildVideoPacket_roundtrip:
  assumes "seq < 2 ^ 32" and "length payload < 2 ^ 32" and "foff < 2 ^ 32"
  shows "parsePacket (buildVideoPacket seq payload isLast foff) =
           Inr (VIDEO_DATA seq (length payload) foff isLast
                  (sum_list (map unat (take (min (length payload) 100) payload)) mod 2 ^ 16)
                  payload)
       \<and> length (buildVideoPacket seq payload isLast foff) = 16 + length payload
       \<and> take 16 (buildVideoPacket seq payload isLast foff) =
           [10] @ be32 seq @ be32 (length payload) @ be32 foff @ [if isLast then 1 else 0]
             @ be16 (sum_list (map unat (take (min (length payload) 100) payload)) mod 2 ^ 16)"
proof (intro conjI)
  show "parsePacket (buildVideoPacket seq payload isLast foff) =
           Inr (VIDEO_DATA seq (length payload) foff isLast
                  (sum_list (map unat (take (min (length payload) 100) payload)) mod 2 ^ 16)
                  payload)"
    using parse_video [OF assms] by (simp only: calculateChecksum_sum)
  show "length (buildVideoPacket seq payload isLast foff) = 16 + length payload"
    by (simp add: build_layout length_be32 length_be16)
  show "take 16 (buildVideoPacket seq payload isLast foff) =
           [10] @ be32 seq @ be32 (length payload) @ be32 foff @ [if isLast then 1 else 0]
             @ be16 (sum_list (map unat (take (min (length payload) 100) payload)) mod 2 ^ 16)"
    by (simp add: build_layout length_be32 length_be16 PacketType_VIDEO_DATA_def
          calculateChecksum_sum)
qed

theorem buildVideoPacket_roundtrip_witness:
  "(7::nat) < 2 ^ 32 \<and> length [1, 2, 3 :: byte] < 2 ^ 32 \<and> (5::nat) < 2 ^ 32
   \<and> parsePacket (buildVideoPacket 7 [1, 2, 3] True 5) = Inr (VIDEO_DATA 7 3 5 True 6 [1, 2, 3])
   \<and> length (buildVideoPacket 7 [1, 2, 3] True 5) = 19"
  using buildVideoPacket_roundtrip [of 7 "[1, 2, 3]" 5 True] by simp

section \<open>The receiver: framing errors\<close>

lemma sendControl_fields [simp]:
  "chunks (sendControl m r) = chunks r"
  "receivedBytes (sendControl m r) = receivedBytes r"
  "state (sendControl m r) = state r"
  "db (sendControl m r) = db r"
  "putQueue (sendControl m r) = putQueue r"
  "pendingAcks (sendControl m r) = pendingAcks r"
  "ackTimer (sendControl m r) = ackTimer r"
  "assembleTimers (sendControl m r) = assembleTimers r"
  "downloads (sendControl m r) = downloads r"
  "metadata (sendControl m r) = metadata r"
  "controlOpen (sendControl m r) = controlOpen r"
  "dcOpen (sendControl m r) = dcOpen r"
  "transferId (sendControl m r) = transferId r"
  by (simp_all add: sendControl_def)








section \<open>The receiver: batched acknowledgements\<close>

lemma batchAcks_sendControl:
  "batchAcks (sendControl m r) =
     batchAcks r @ (if (controlOpen r \<or> dcOpen r) \<and> isBatchAck (controlPath r, m)
                    then [(controlPath r, m)] else [])"
  by (cases m) (auto simp: batchAcks_def sendControl_def controlPath_def)

lemma batchAcks_upd [simp]:
  "batchAcks (r\<lparr>pendingAcks := p\<rparr>) = batchAcks r"
  "batchAcks (r\<lparr>ackTimer := t\<rparr>) = batchAcks r"
  "batchAcks (r\<lparr>chunks := c\<rparr>) = batchAcks r"
  "batchAcks (r\<lparr>receivedBytes := n\<rparr>) = batchAcks r"
  "batchAcks (r\<lparr>putQueue := q\<rparr>) = batchAcks r"
  "batchAcks (r\<lparr>assembleTimers := k\<rparr>) = batchAcks r"
  "batchAcks (r\<lparr>state := st\<rparr>) = batchAcks r"
  "batchAcks (r\<lparr>db := d\<rparr>) = batchAcks r"
  "batchAcks (r\<lparr>downloads := dl\<rparr>) = batchAcks r"
  "batchAcks (r\<lparr>dcOpen := b\<rparr>) = batchAcks r"
  "batchAcks (r\<lparr>controlOpen := b\<rparr>) = batchAcks r"
  by (simp_all add: batchAcks_def)

lemma controlPath_upd [simp]:
  "controlPath (r\<lparr>pendingAcks := p\<rparr>) = controlPath r"
  "controlPath (r\<lparr>ackTimer := t\<rparr>) = controlPath r"
  "controlPath (r\<lparr>chunks := c\<rparr>) = controlPath r"
  "controlPath (r\<lparr>receivedBytes := n\<rparr>) = controlPath r"
  "controlPath (r\<lparr>putQueue := q\<rparr>) = controlPath r"
  "controlPath (r\<lparr>assembleTimers := k\<rparr>) = controlPath r"
  "controlPath (r\<lparr>state := st\<rparr>) = controlPath r"
  by (simp_all add: controlPath_def)

lemma sendBatchAck_fields [simp]:
  "chunks (sendBatchAck r) = chunks r"
  "receivedBytes (sendBatchAck r) = receivedBytes r"
  "state (sendBatchAck r) = state r"
  "db (sendBatchAck r) = db r"
  "putQueue (sendBatchAck r) = putQueue r"
  "assembleTimers (sendBatchAck r) = assembleTimers r"
  "downloads (sendBatchAck r) = downloads r"
  "metadata (sendBatchAck r) = metadata r"
  by (simp_all add: sendBatchAck_def Let_def)

lemma sendBatchAck_nonempty:
  "pendingAcks r \<noteq> [] \<Longrightarrow>
   sendBatchAck r =
     (sendControl (CHUNK_BATCH_ACK (pendingAcks r) (receivedBytes r)) r)
       \<lparr>pendingAcks := [], ackTimer := None\<rparr>"
  by (cases "ackTimer r") (simp_all add: sendBatchAck_def Let_def)

lemma sendBatchAck_empty: "pendingAcks r = [] \<Longrightarrow> sendBatchAck r = r"
  by (simp add: sendBatchAck_def)

lemma sendBatchAck_pending [simp]: "pendingAcks (sendBatchAck r) = []"
  by (cases "pendingAcks r = []") (simp_all add: sendBatchAck_nonempty sendBatchAck_empty)

lemma sendBatchAck_timer: "pendingAcks r \<noteq> [] \<Longrightarrow> ackTimer (sendBatchAck r) = None"
  by (simp add: sendBatchAck_nonempty)


lemma saveChunk_fields [simp]:
  "pendingAcks (saveChunk sq d off l r) = pendingAcks r"
  "ackTimer (saveChunk sq d off l r) = ackTimer r"
  "receivedBytes (saveChunk sq d off l r) = receivedBytes r"
  "controlOpen (saveChunk sq d off l r) = controlOpen r"
  "dcOpen (saveChunk sq d off l r) = dcOpen r"
  "batchAcks (saveChunk sq d off l r) = batchAcks r"
  "controlPath (saveChunk sq d off l r) = controlPath r"
  "state (saveChunk sq d off l r) = state r"
  "downloads (saveChunk sq d off l r) = downloads r"
  "metadata (saveChunk sq d off l r) = metadata r"
  "assembleTimers (saveChunk sq d off l r) = assembleTimers r"
  by (simp_all add: saveChunk_def batchAcks_def controlPath_def split: option.splits)

text \<open>The acknowledgement part of a state after a chunk was stored.\<close>

lemma storeChunk_pending:
  "pendingAcks (storeChunk h d r) =
     (if length (pendingAcks r) + 1 \<ge> SACK_BATCH_SIZE then [] else pendingAcks r @ [h_seq h])"
  by (simp add: storeChunk_def Let_def split: option.splits)

lemma storeChunk_timer:
  "ackTimer (storeChunk h d r) =
     (if length (pendingAcks r) + 1 \<ge> SACK_BATCH_SIZE then None
      else if ackTimer r = None then Some 100 else ackTimer r)"
  by (auto simp: storeChunk_def Let_def sendBatchAck_timer split: option.splits)



lemma requestRetransmit_acks [simp]:
  "pendingAcks (requestRetransmit sqs r) = pendingAcks r"
  "ackTimer (requestRetransmit sqs r) = ackTimer r"
  "batchAcks (requestRetransmit sqs r) = batchAcks r"
  "state (requestRetransmit sqs r) = state r"
  "downloads (requestRetransmit sqs r) = downloads r"
  by (simp_all add: requestRetransmit_def batchAcks_sendControl)

lemma handleError_acks [simp]:
  "pendingAcks (handleError msg r) = pendingAcks r"
  "ackTimer (handleError msg r) = ackTimer r"
  "batchAcks (handleError msg r) = batchAcks r"
  "downloads (handleError msg r) = downloads r"
  by (simp_all add: handleError_def batchAcks_sendControl)

lemma cleanup_acks [simp]:
  "pendingAcks (cleanup r) = pendingAcks r"
  "ackTimer (cleanup r) = ackTimer r"
  "batchAcks (cleanup r) = batchAcks r"
  "state (cleanup r) = state r"
  "downloads (cleanup r) = downloads r"
  by (simp_all add: cleanup_def Let_def batchAcks_def split: option.splits)

lemma assembleFile_acks [simp]:
  "pendingAcks (assembleFile ok r) = pendingAcks r"
  "ackTimer (assembleFile ok r) = ackTimer r"
  "batchAcks (assembleFile ok r) = batchAcks r"
  by (simp_all add: assembleFile_def Let_def split: sum.splits option.splits)

lemma putCompleted_acks [simp]:
  "pendingAcks (putCompleted ok r) = pendingAcks r"
  "ackTimer (putCompleted ok r) = ackTimer r"
  "batchAcks (putCompleted ok r) = batchAcks r"
  "state (putCompleted ok r) = state r"
  "downloads (putCompleted ok r) = downloads r"
  by (simp_all add: putCompleted_def batchAcks_def split: list.splits)

lemma ackInv_step: "ackInv r \<Longrightarrow> ackInv (rx_step dec r ev)"
proof (cases ev)
  case (Frame buf)
  assume "ackInv r"
  then show ?thesis
    by (cases "checkFrame dec r buf")
       (auto simp: Frame rx_step_def handleBinaryChunk_def ackInv_def storeChunk_pending
          storeChunk_timer SACK_BATCH_SIZE_def)
next
  case AckTimerFired
  assume "ackInv r"
  then show ?thesis
    by (cases "pendingAcks r = []")
       (auto simp: AckTimerFired rx_step_def ackInv_def sendBatchAck_timer)
next
  case (AssembleTimerFired ok)
  assume "ackInv r"
  then show ?thesis by (simp add: AssembleTimerFired rx_step_def ackInv_def)
next
  case (PutCompleted ok)
  assume "ackInv r"
  then show ?thesis by (simp add: PutCompleted rx_step_def ackInv_def)
qed

lemma ackInv_run: "ackInv r \<Longrightarrow> ackInv (rx_run dec r evs)"
  unfolding rx_run_def by (induction evs arbitrary: r) (simp_all add: ackInv_step)







lemma checkFrame_frameA:
  "\<not> cryptoKey r \<Longrightarrow> checkFrame dec r frameA =
     Accept \<lparr>h_seq = 0, h_size = 3, h_offset = 0, h_flags = 0, h_reserved = 0, h_checksum = 6\<rparr>
       (TypedArray [1, 2, 3])"
  by (simp add: checkFrame_def frameA_def parseHeader_def getUint32_def getUint16_def
        getUint8_def rdUint32_def rdUint16_def rdUint8_def calculateChecksum_def
        isEncryptedFlag_def)


text \<open>
  What \<open>crypto.subtle.decrypt\<close> returns has no \<open>length\<close>: once such a chunk is stored,
  \<open>receivedBytes\<close> is \<open>NaN\<close> and stays so.
\<close>

lemma storeChunk_RawBuffer: "receivedBytes (storeChunk h (RawBuffer b) r) = NaN"
  by (cases "receivedBytes r") (simp_all add: storeChunk_def Let_def split: option.splits)
section \<open>The receiver: assembly\<close>


lemma handleError_state [simp]: "state (handleError msg r) = Failed"
  by (simp add: handleError_def)


lemma storeChunk_state [simp]:
  "state (storeChunk h d r) = state r"
  "downloads (storeChunk h d r) = downloads r"
  by (simp_all add: storeChunk_def Let_def split: option.splits)

lemma handleBinaryChunk_state [simp]:
  "state (handleBinaryChunk dec r buf) = state r"
  "downloads (handleBinaryChunk dec r buf) = downloads r"
  by (simp_all add: handleBinaryChunk_def split: verdict.splits)








lemma checkFrame_frameB:
  "\<not> cryptoKey r \<Longrightarrow> checkFrame dec r frameB =
     Accept \<lparr>h_seq = 1, h_size = 3, h_offset = 3, h_flags = 1, h_reserved = 0, h_checksum = 15\<rparr>
       (TypedArray [4, 5, 6])"
  by (simp add: checkFrame_def frameB_def parseHeader_def getUint32_def getUint16_def
        getUint8_def rdUint32_def rdUint16_def rdUint8_def calculateChecksum_def
        isEncryptedFlag_def)


lemma checkFrame_frameA':
  "\<not> cryptoKey r \<Longrightarrow> checkFrame dec r frameA' =
     Accept \<lparr>h_seq = 0, h_size = 3, h_offset = 0, h_flags = 0, h_reserved = 0, h_checksum = 27\<rparr>
       (TypedArray [9, 9, 9])"
  by (simp add: checkFrame_def frameA'_def parseHeader_def getUint32_def getUint16_def
        getUint8_def rdUint32_def rdUint16_def rdUint8_def calculateChecksum_def
        isEncryptedFlag_def)

lemmas rx_eval =
  rx_run_def rx_step_def handleBinaryChunk_def checkFrame_frameA checkFrame_frameA'
  checkFrame_frameB storeChunk_def saveChunk_def putCompleted_def sendBatchAck_def
  sendControl_def isLastFlag_def SACK_BATCH_SIZE_def exampleReceiver_def SonicReceiver_def
  exampleReceiver49_def exampleReceiver1_def Let_def



section \<open>The receiver: acknowledgement and persistence, duplicates\<close>

text \<open>Handling a frame never changes what the store holds.\<close>

lemma handleBinaryChunk_db: "db (handleBinaryChunk dec r buf) = db r"
  by (simp add: handleBinaryChunk_def storeChunk_def saveChunk_def requestRetransmit_def Let_def
        split: verdict.splits option.splits)

text \<open>
  C2 does not hold of \<open>handleBinaryChunk\<close>, which calls \<open>saveChunk\<close> without awaiting
  it. After one frame the sequence number is in the pending list while the \<open>put\<close>
  is still in flight and the store is empty; if that \<open>put\<close> then fails, the timer
  still acknowledges the chunk. And when the frame is the fiftieth pending one, the
  \<open>CHUNK_BATCH_ACK\<close> naming it leaves in the very turn that issued the \<open>put\<close>.
\<close>

theorem ack_sent_before_put_completes:
  "pendingAcks (rx_run localModeDecrypt exampleReceiver [Frame frameA]) = [0]
   \<and> length (putQueue (rx_run localModeDecrypt exampleReceiver [Frame frameA])) = 1
   \<and> db (rx_run localModeDecrypt exampleReceiver [Frame frameA]) = Some []
   \<and> sent (rx_run localModeDecrypt exampleReceiver
             [Frame frameA, PutCompleted False, AckTimerFired])
        = [(ControlChannel, CHUNK_BATCH_ACK [0] (Num 3))]
   \<and> db (rx_run localModeDecrypt exampleReceiver
           [Frame frameA, PutCompleted False, AckTimerFired]) = Some []
   \<and> sent (rx_run localModeDecrypt exampleReceiver49 [Frame frameA])
        = [(ControlChannel, CHUNK_BATCH_ACK ([1 ..< 50] @ [0]) (Num 150))]
   \<and> length (putQueue (rx_run localModeDecrypt exampleReceiver49 [Frame frameA])) = 1
   \<and> db (rx_run localModeDecrypt exampleReceiver49 [Frame frameA]) = Some []"
  by (simp add: rx_eval)


text \<open>
  C3 does not hold of \<open>handleBinaryChunk\<close>, which has no test for a sequence number
  already received. The same frame delivered twice is counted twice in
  \<open>receivedBytes\<close> (here reaching \<open>fileSize\<close> and scheduling assembly with chunk 1
  missing), and a second frame for sequence number 0 with another payload replaces
  the stored one.
\<close>

theorem duplicate_frame_counted_again:
  "receivedBytes (rx_run localModeDecrypt exampleReceiver [Frame frameA, PutCompleted True]) = Num 3
   \<and> receivedBytes (rx_run localModeDecrypt exampleReceiver
        [Frame frameA, PutCompleted True, Frame frameA, PutCompleted True]) = Num 6
   \<and> assembleTimers (rx_run localModeDecrypt exampleReceiver
        [Frame frameA, PutCompleted True, Frame frameA, PutCompleted True]) = 1
   \<and> map_option (map (c_data \<circ> snd))
         (db (rx_run localModeDecrypt exampleReceiver [Frame frameA, PutCompleted True]))
        = Some [TypedArray [1, 2, 3]]
   \<and> map_option (map (c_data \<circ> snd))
         (db (rx_run localModeDecrypt exampleReceiver
               [Frame frameA, PutCompleted True, Frame frameA', PutCompleted True]))
        = Some [TypedArray [9, 9, 9]]"
  by (simp add: rx_eval)

section \<open>The reorder buffer: monotone progress\<close>

declare drain.simps [simp del]

lemma saveChunkToDB_fields:
  assumes "saveChunkToDB E seq dat s = Inr s1"
  shows "l_expectedSeq s1 = l_expectedSeq s" "l_reorderBuffer s1 = l_reorderBuffer s"
    "l_transferState s1 = l_transferState s"
    "\<And>k. k \<noteq> seq \<Longrightarrow> storeGet s1 k = storeGet s k"
proof -
  show "l_expectedSeq s1 = l_expectedSeq s" "l_reorderBuffer s1 = l_reorderBuffer s"
    "l_transferState s1 = l_transferState s"
    using assms by (auto simp: saveChunkToDB_def split: option.splits if_splits)
  have ms: "k \<noteq> seq \<Longrightarrow> Map_get (Map_set m seq v) k = Map_get m k"
    for m :: "(nat \<times> buffer) list" and k v
    by (induction m) auto
  show "\<And>k. k \<noteq> seq \<Longrightarrow> storeGet s1 k = storeGet s k"
    using assms by (auto simp: saveChunkToDB_def storeGet_def ms split: option.splits if_splits)
qed

lemma sendFeedback_fields [simp]:
  "l_expectedSeq (sendFeedback seq s) = l_expectedSeq s"
  "l_reorderBuffer (sendFeedback seq s) = l_reorderBuffer s"
  "l_db (sendFeedback seq s) = l_db s"
  "l_transferState (sendFeedback seq s) = l_transferState s"
  "storeGet (sendFeedback seq s) k = storeGet s k"
  by (simp_all add: sendFeedback_def storeGet_def)

lemma set_Map_delete: "set (Map_delete m k) \<subseteq> set m"
  by (induction m) (auto split: if_splits)

text \<open>One pass of the loop body, when the save succeeds.\<close>

lemma drain_unfold:
  "drain E s =
     (case Map_get (l_reorderBuffer s) (l_expectedSeq s) of
        None \<Rightarrow> (s, None)
      | Some dat \<Rightarrow>
          (case saveChunkToDB E (l_expectedSeq s) dat s of
             Inl e \<Rightarrow> (s, Some e)
           | Inr s1 \<Rightarrow>
               drain E (sendFeedback (l_expectedSeq s)
                 (s1\<lparr>l_reorderBuffer := Map_delete (l_reorderBuffer s1) (l_expectedSeq s),
                     l_expectedSeq := l_expectedSeq s1 + 1\<rparr>))))"
  by (subst drain.simps) (simp add: Let_def split: option.splits sum.splits)

lemma drain_props:
  "l_expectedSeq s \<le> l_expectedSeq (fst (drain E s))
   \<and> set (l_reorderBuffer (fst (drain E s))) \<subseteq> set (l_reorderBuffer s)
   \<and> (\<forall>k < l_expectedSeq s. storeGet (fst (drain E s)) k = storeGet s k)"
proof (induction E s rule: drain.induct)
  case (1 E s)
  show ?case
  proof (cases "Map_get (l_reorderBuffer s) (l_expectedSeq s)")
    case None
    then show ?thesis by (simp add: drain_unfold [of E s])
  next
    case (Some dat)
    show ?thesis
    proof (cases "saveChunkToDB E (l_expectedSeq s) dat s")
      case (Inl e)
      then show ?thesis by (simp add: drain_unfold [of E s] Some)
    next
      case (Inr s1)
      define s3 where "s3 = s1\<lparr>l_reorderBuffer := Map_delete (l_reorderBuffer s1) (l_expectedSeq s),
                     l_expectedSeq := l_expectedSeq s1 + 1\<rparr>"
      define t where "t = sendFeedback (l_expectedSeq s) s3"
      have d: "drain E s = drain E t"
        by (simp add: drain_unfold [of E s] Some Inr t_def s3_def)
      have IH: "l_expectedSeq t \<le> l_expectedSeq (fst (drain E t))
         \<and> set (l_reorderBuffer (fst (drain E t))) \<subseteq> set (l_reorderBuffer t)
         \<and> (\<forall>k < l_expectedSeq t. storeGet (fst (drain E t)) k = storeGet t k)"
        using "1.IH" [OF Some refl Inr refl refl] by (simp add: t_def s3_def)
      have e: "l_expectedSeq t = l_expectedSeq s + 1"
        by (simp add: t_def s3_def saveChunkToDB_fields(1) [OF Inr])
      have b: "set (l_reorderBuffer t) \<subseteq> set (l_reorderBuffer s)"
        by (simp add: t_def s3_def saveChunkToDB_fields(2) [OF Inr] set_Map_delete)
      have g: "\<forall>k < l_expectedSeq s. storeGet t k = storeGet s k"
        using saveChunkToDB_fields(4) [OF Inr] by (simp add: t_def s3_def storeGet_def)
      show ?thesis using IH e b g by (auto simp: d)
    qed
  qed
qed


lemma drain_quiet:
  "Map_get (l_reorderBuffer s) (l_expectedSeq s) = None \<Longrightarrow> drain E s = (s, None)"
  by (simp add: drain_unfold [of E s])

lemma drain_exit:
  "snd (drain E s) = None \<Longrightarrow>
   Map_get (l_reorderBuffer (fst (drain E s))) (l_expectedSeq (fst (drain E s))) = None"
proof (induction E s rule: drain.induct)
  case (1 E s)
  show ?case
  proof (cases "Map_get (l_reorderBuffer s) (l_expectedSeq s)")
    case None
    then show ?thesis by (simp add: drain_unfold [of E s])
  next
    case (Some dat)
    show ?thesis
    proof (cases "saveChunkToDB E (l_expectedSeq s) dat s")
      case (Inl e)
      then show ?thesis using "1.prems" by (simp add: drain_unfold [of E s] Some)
    next
      case (Inr s1)
      define t where "t = sendFeedback (l_expectedSeq s)
          (s1\<lparr>l_reorderBuffer := Map_delete (l_reorderBuffer s1) (l_expectedSeq s),
              l_expectedSeq := l_expectedSeq s1 + 1\<rparr>)"
      have d: "drain E s = drain E t"
        by (simp add: drain_unfold [of E s] Some Inr t_def)
      have "snd (drain E t) = None \<Longrightarrow>
         Map_get (l_reorderBuffer (fst (drain E t))) (l_expectedSeq (fst (drain E t))) = None"
        using "1.IH" [OF Some refl Inr refl refl] by (simp add: t_def)
      then show ?thesis using "1.prems" by (simp add: d)
    qed
  qed
qed

lemma onData_late:
  "d_seq p < l_expectedSeq s \<Longrightarrow>
   onData E s p = (if l_transferState s \<noteq> READY_STATE then (s, None) else drain E s)"
  by (simp add: onData_def)

lemma onData_duplicate:
  "Map_has (l_reorderBuffer s) (d_seq p) \<Longrightarrow>
   onData E s p = (if l_transferState s \<noteq> READY_STATE then (s, None) else drain E s)"
  by (simp add: onData_def)

lemma onData_monotone: "l_expectedSeq s \<le> l_expectedSeq (fst (onData E s p))"
proof -
  have "l_expectedSeq s \<le> l_expectedSeq (fst (drain E (s\<lparr>l_reorderBuffer := b\<rparr>)))" for b
    using drain_props [of "s\<lparr>l_reorderBuffer := b\<rparr>" E] by simp
  moreover have "l_expectedSeq s \<le> l_expectedSeq (fst (drain E s))"
    using drain_props [of s E] by simp
  ultimately show ?thesis
    by (simp add: onData_def split: option.splits)
qed

text \<open>
  C8. \<open>onData\<close> never decreases \<open>expectedSeq\<close>. A frame whose sequence number is
  strictly below \<open>expectedSeq\<close> adds nothing to the reorder buffer and leaves what
  the chunk store holds under its sequence number untouched; when the reorder
  buffer holds no chunk for \<open>expectedSeq\<close> (the state every \<open>onData\<close> that ends without
  error leaves, \<open>drain_exit\<close>), the call changes nothing at all.
\<close>

theorem onData_monotone_late_ignored:
  "l_expectedSeq s \<le> l_expectedSeq (fst (onData E s p))
   \<and> (d_seq p < l_expectedSeq s \<longrightarrow>
        set (l_reorderBuffer (fst (onData E s p))) \<subseteq> set (l_reorderBuffer s)
        \<and> storeGet (fst (onData E s p)) (d_seq p) = storeGet s (d_seq p)
        \<and> (Map_get (l_reorderBuffer s) (l_expectedSeq s) = None
             \<longrightarrow> onData E s p = (s, None)))"
proof (intro conjI impI)
  show "l_expectedSeq s \<le> l_expectedSeq (fst (onData E s p))"
    by (rule onData_monotone)
next
  assume late: "d_seq p < l_expectedSeq s"
  show "set (l_reorderBuffer (fst (onData E s p))) \<subseteq> set (l_reorderBuffer s)"
    using drain_props [of s E] by (simp add: onData_late [OF late])
  show "storeGet (fst (onData E s p)) (d_seq p) = storeGet s (d_seq p)"
    using drain_props [of s E] late by (simp add: onData_late [OF late])
  assume "Map_get (l_reorderBuffer s) (l_expectedSeq s) = None"
  then show "onData E s p = (s, None)"
    by (simp add: onData_late [OF late] drain_quiet)
qed

theorem onData_monotone_late_ignored_witness:
  "d_seq lateChunk < l_expectedSeq exampleLegacy
   \<and> Map_get (l_reorderBuffer exampleLegacy) (l_expectedSeq exampleLegacy) = None
   \<and> onData exampleRxEnv exampleLegacy lateChunk = (exampleLegacy, None)
   \<and> storeGet exampleLegacy (d_seq lateChunk) = Some [11]"
proof -
  have a: "d_seq lateChunk < l_expectedSeq exampleLegacy"
    by (simp add: lateChunk_def exampleLegacy_def)
  have b: "Map_get (l_reorderBuffer exampleLegacy) (l_expectedSeq exampleLegacy) = None"
    by (simp add: exampleLegacy_def)
  have c: "storeGet exampleLegacy (d_seq lateChunk) = Some [11]"
    by (simp add: exampleLegacy_def lateChunk_def storeGet_def)
  show ?thesis
    using onData_monotone_late_ignored [of exampleLegacy exampleRxEnv lateChunk] a b c
    by simp
qed

text \<open>An in-order chunk is stored, acknowledged, and advances \<open>expectedSeq\<close>.\<close>

lemma onData_example_in_order:
  "onData exampleRxEnv exampleLegacy \<lparr>d_seq = 3, d_iv = [], d_payload = [30]\<rparr> =
     (exampleLegacy\<lparr>l_expectedSeq := 4,
        l_db := Some [(0, [10]), (1, [11]), (2, [12]), (3, [30])], l_savedSeq := Some 3,
        l_feedback := [BinaryAck (buildAckPacket 3)]\<rparr>, None)"
  by (simp add: onData_def exampleLegacy_def exampleRxEnv_def drain_unfold saveChunkToDB_def
        sendFeedback_def MAX_BUFFER_def)

section \<open>The sender: nonce, resume, key\<close>

lemma newBuffer12: "newBuffer 12 = [0, 0, 0, 0, 0, 0, 0, 0, 0, 0, 0, 0]"
  by (simp add: newBuffer_def numeral_eq_Suc)

lemma customIv_layout: "customIv seq = [0, 0, 0, 0, 0, 0, 0, 0] @ be32 seq"
  by (simp add: customIv_def newBuffer12 setUint32_def be32_def)

lemma encryptStep_nonce:
  "IS_SECURE E \<Longrightarrow> sharedKey s = Some (AesGcmKey k) \<Longrightarrow>
   encryptStep E s chunk =
     Inr (Some \<lparr>e_iv = Some (getRandomValues E (nextSeq s)),
                e_data = aesGcmEncrypt E k (getRandomValues E (nextSeq s)) chunk\<rparr>)"
  by (simp add: encryptStep_def encryptChunk_def Let_def)

lemma senderReady_eq:
  "senderReady E = initialState\<lparr>dataChannel := Some exampleChannel, isInitiator := True,
      transferState := READY_STATE\<rparr>"
  by (simp add: senderReady_def handleMessage_def initialState_def)

lemma senderKeyed_real:
  "senderKeyed (exampleTxEnv cipher) ''peer-public-key'' =
     initialState\<lparr>dataChannel := Some exampleChannel, isInitiator := True,
        transferState := READY_STATE, sharedKey := Some (AesGcmKey 1)\<rparr>"
  by (simp add: senderKeyed_def senderReady_eq handleMessage_def initialState_def
        exampleTxEnv_def)

lemma senderKeyed_local:
  "senderKeyed E ''INSECURE'' =
     initialState\<lparr>dataChannel := Some exampleChannel, isInitiator := True,
        transferState := READY_STATE, sharedKey := Some INSECURE\<rparr>"
  by (simp add: senderKeyed_def senderReady_eq handleMessage_def initialState_def)

text \<open>
  C1 does not hold of the sender. \<open>trySend\<close> builds the nonce of the claim (eight
  zero bytes, then the sequence number in big-endian, \<open>customIv_layout\<close>) and passes
  it as a second argument to \<open>encryptChunk\<close>, which takes one parameter and encrypts
  under twelve fresh random bytes. For the first chunk (sequence number 0) of the
  example transfer the nonce used is the random value, not the twelve zero bytes
  the receiver rebuilds from the sequence number.
\<close>

theorem sender_nonce_not_from_seq:
  "encryptStep (exampleTxEnv cipher)
       (sendFile exampleFile (senderKeyed (exampleTxEnv cipher) ''peer-public-key''))
       [1, 2, 3]
     = Inr (Some \<lparr>e_iv = Some (replicate 12 171),
                  e_data = cipher 1 (replicate 12 171) [1, 2, 3]\<rparr>)
   \<and> customIv (nextSeq (sendFile exampleFile
                  (senderKeyed (exampleTxEnv cipher) ''peer-public-key'')))
       = [0, 0, 0, 0, 0, 0, 0, 0, 0, 0, 0, 0]
   \<and> replicate 12 (171 :: byte) \<noteq> [0, 0, 0, 0, 0, 0, 0, 0, 0, 0, 0, 0]"
proof -
  have r: "replicate 12 (171 :: byte) = [171, 171, 171, 171, 171, 171, 171, 171, 171, 171, 171, 171]"
    by (simp add: numeral_eq_Suc)
  have n: "nextSeq (sendFile exampleFile (senderKeyed (exampleTxEnv cipher) ''peer-public-key'')) = 0"
    "sharedKey (sendFile exampleFile (senderKeyed (exampleTxEnv cipher) ''peer-public-key''))
       = Some (AesGcmKey 1)"
    by (simp_all add: senderKeyed_real sendFile_def startTransfer_def resetTransfer_def
          initialState_def Let_def)
  have e: "IS_SECURE (exampleTxEnv cipher)"
    "getRandomValues (exampleTxEnv cipher) 0 = replicate 12 171"
    "aesGcmEncrypt (exampleTxEnv cipher) = cipher"
    by (simp_all add: exampleTxEnv_def)
  show ?thesis
    unfolding encryptStep_nonce [OF e(1) n(2)] n(1) e customIv_layout
    by (simp add: r be32_def)
qed


lemma pickChannel_single:
  "readyOpen c \<Longrightarrow> bufferedAmount c < MAX_BUFFER \<Longrightarrow> pickChannel [c] 0 = Some 0"
  by (simp add: pickChannel_def)

lemma slice_example:
  "slice (replicate 1572864 (7 :: byte)) 0 (0 + 524288) = replicate 524288 7"
  by (simp add: slice_def)

text \<open>
  C4 does not hold of the sender. The \<open>RESUME_FROM\<close> branch of \<open>handleMessage\<close> sets
  \<open>nextSeq\<close> (to the offset divided by \<open>CHUNK_SIZE\<close>) and leaves \<open>fileOffset\<close> as
  \<open>resetTransfer\<close> set it. After the receiver reports the first 512 KiB chunk
  (\<open>byteOffset\<close> 524288), the first frame sent carries the bytes from offset 0 again,
  under sequence number 2.
\<close>

theorem resume_restarts_at_byte_zero:
  "map framesSent
     (snd (handleMessage (exampleTxEnv cipher) 1 (RESUME_FROM 524288 [0])
            (sendFile exampleFile (senderKeyed (exampleTxEnv cipher) ''INSECURE''))))
     = [[\<lparr>sp_seq = 2, sp_chunk = replicate 524288 7, sp_isLast = False, sp_offset = 0,
          sp_isEncrypted = False\<rparr>]]"
  by (simp add: senderKeyed_local sendFile_def startTransfer_def resetTransfer_def
        initialState_def handleMessage_def trySend_def exampleFile_def exampleChannel_def
        exampleTxEnv_def CHUNK_SIZE_def MAX_BUFFER_def pickChannel_def encryptStep_def
        channelSend_def slice_def Let_def)

text \<open>
  C5 does not hold of \<open>trySend\<close> in protocol.js. In a secure context, with the file
  offered after \<open>READY\<close> and before any \<open>KEY\<close> message, \<open>sharedKey\<close> is still null when
  \<open>START_TRANSFER\<close> arrives, and the first chunk goes out unencrypted.
\<close>

theorem plaintext_sent_without_key:
  "sharedKey (sendFile exampleFile (senderReady (exampleTxEnv cipher))) = None
   \<and> IS_SECURE (exampleTxEnv cipher)
   \<and> map framesSent
       (snd (handleMessage (exampleTxEnv cipher) 1 START_TRANSFER
              (sendFile exampleFile (senderReady (exampleTxEnv cipher)))))
       = [[\<lparr>sp_seq = 0, sp_chunk = replicate 524288 7, sp_isLast = False, sp_offset = 0,
            sp_isEncrypted = False\<rparr>]]"
  by (simp add: senderReady_eq sendFile_def startTransfer_def resetTransfer_def
        initialState_def handleMessage_def trySend_def exampleFile_def exampleChannel_def
        exampleTxEnv_def CHUNK_SIZE_def MAX_BUFFER_def pickChannel_def encryptStep_def
        channelSend_def slice_def Let_def)


end
